theory Spec2Isabelle
  imports Complex_Main "HOL-Library.Sublist"
begin

section \<open>kubemcp: pod queries over a tool-invocation server\<close>

text \<open>
  The repository is one Go file, \<^verbatim>\<open>main.go\<close>, present in two variants. The later
  variant (with the kubeconfig fallback) has the functions
  \<^verbatim>\<open>deleteUnnecessaryFieldsFromPodSpec\<close>, \<^verbatim>\<open>getPodByLabelHandler\<close> and
  \<^verbatim>\<open>getPodDatailsHandler\<close>; the earlier variant has \<^verbatim>\<open>getByLabelHandler\<close> and
  its own \<^verbatim>\<open>getPodDatailsHandler\<close>. Both variants are embedded; the earlier variant's
  functions carry the suffix \<open>_early\<close> where the names coincide.
\<close>

subsection \<open>Pod records\<close>

text \<open>
  \<^verbatim>\<open>metav1.ManagedFieldsEntry\<close>, \<^verbatim>\<open>metav1.ObjectMeta\<close> and \<^verbatim>\<open>v1.Pod\<close>, with the fields
  the program touches and the neighbouring metadata. A Go map or slice may be nil:
  \<open>None\<close> is the nil map (nil slice), \<open>Some m\<close> an allocated one. The pod's spec and
  status are never inspected by the program and stay type parameters.
\<close>

record ManagedFieldsEntry =
  Manager :: string
  Operation :: string
  APIVersion :: string
  FieldsV1 :: string

record ObjectMeta =
  Name :: string
  Namespace :: string
  Labels :: "(string \<rightharpoonup> string) option"
  Annotations :: "(string \<rightharpoonup> string) option"
  ManagedFields :: "ManagedFieldsEntry list option"

record ('spec, 'status) Pod =
  ObjectMeta :: ObjectMeta
  Spec :: 'spec
  Status :: 'status

subsection \<open>The pod sanitizer\<close>

text \<open>
  Go's builtin \<^verbatim>\<open>delete(m, k)\<close>: a no-op on a nil map and on a missing key, otherwise
  the key is removed. It never panics.
\<close>

definition builtin_delete :: "('k \<rightharpoonup> 'v) option \<Rightarrow> 'k \<Rightarrow> ('k \<rightharpoonup> 'v) option" where
  "builtin_delete m k = (case m of None \<Rightarrow> None | Some f \<Rightarrow> Some (f(k := None)))"

definition last_applied_configuration :: string where
  "last_applied_configuration = ''kubectl.kubernetes.io/last-applied-configuration''"

definition psp :: string where
  "psp = ''kubernetes.io/psp''"

text \<open>
  \<^verbatim>\<open>
  func deleteUnnecessaryFieldsFromPodSpec(pod *v1.Pod) {
      pod.ManagedFields = nil
      delete(pod.Annotations, "kubectl.kubernetes.io/last-applied-configuration")
      delete(pod.Annotations, "kubernetes.io/psp")
  }
  \<close>
  The function mutates the pod behind the pointer; the model returns the pod as it
  stands after the call. \<^verbatim>\<open>ManagedFields\<close> and \<^verbatim>\<open>Annotations\<close> are promoted fields of
  the embedded \<^verbatim>\<open>ObjectMeta\<close>.
\<close>

definition deleteUnnecessaryFieldsFromPodSpec :: "('s, 't) Pod \<Rightarrow> ('s, 't) Pod" where
  "deleteUnnecessaryFieldsFromPodSpec pod =
     (let pod1 = pod\<lparr>ObjectMeta := (ObjectMeta pod)\<lparr>ManagedFields := None\<rparr>\<rparr>;
          pod2 = pod1\<lparr>ObjectMeta := (ObjectMeta pod1)
                   \<lparr>Annotations :=
                      builtin_delete (Annotations (ObjectMeta pod1)) last_applied_configuration\<rparr>\<rparr>;
          pod3 = pod2\<lparr>ObjectMeta := (ObjectMeta pod2)
                   \<lparr>Annotations := builtin_delete (Annotations (ObjectMeta pod2)) psp\<rparr>\<rparr>
      in pod3)"

text \<open>
  The call as Go runs it, statement by statement, with its run-time faults as values.
  The argument is a pointer: \<open>None\<close> is the nil pointer, \<open>Some pod\<close> points to \<open>pod\<close>.
  A field selected through a nil pointer panics, on a write (\<^verbatim>\<open>pod.ManagedFields = nil\<close>)
  and on a read (\<^verbatim>\<open>pod.Annotations\<close>, the argument of \<^verbatim>\<open>delete\<close>). An index out of the
  slice's range panics too; the handlers' loop takes the address of an element.
\<close>

datatype panic = NilPointerDereference | IndexOutOfRange

definition store_ManagedFields ::
  "('s, 't) Pod option \<Rightarrow> ManagedFieldsEntry list option \<Rightarrow> panic + ('s, 't) Pod" where
  "store_ManagedFields p v =
     (case p of
        None \<Rightarrow> Inl NilPointerDereference
      | Some pod \<Rightarrow> Inr (pod\<lparr>ObjectMeta := (ObjectMeta pod)\<lparr>ManagedFields := v\<rparr>\<rparr>))"

definition load_Annotations ::
  "('s, 't) Pod option \<Rightarrow> panic + (string \<rightharpoonup> string) option" where
  "load_Annotations p =
     (case p of
        None \<Rightarrow> Inl NilPointerDereference
      | Some pod \<Rightarrow> Inr (Annotations (ObjectMeta pod)))"

text \<open>
  \<^verbatim>\<open>delete(pod.Annotations, key)\<close>: the map is read through the pointer, and the pod
  holds the map after the deletion.
\<close>

definition delete_Annotation :: "('s, 't) Pod option \<Rightarrow> string \<Rightarrow> panic + ('s, 't) Pod" where
  "delete_Annotation p key =
     (case load_Annotations p of
        Inl e \<Rightarrow> Inl e
      | Inr anns \<Rightarrow>
          (case p of
             None \<Rightarrow> Inl NilPointerDereference
           | Some pod \<Rightarrow>
               Inr (pod\<lparr>ObjectMeta := (ObjectMeta pod)
                          \<lparr>Annotations := builtin_delete anns key\<rparr>\<rparr>)))"

definition deleteUnnecessaryFieldsFromPodSpec_call ::
  "('s, 't) Pod option \<Rightarrow> panic + ('s, 't) Pod" where
  "deleteUnnecessaryFieldsFromPodSpec_call p =
     (case store_ManagedFields p None of
        Inl e \<Rightarrow> Inl e
      | Inr pod1 \<Rightarrow>
          (case delete_Annotation (Some pod1) last_applied_configuration of
             Inl e \<Rightarrow> Inl e
           | Inr pod2 \<Rightarrow> delete_Annotation (Some pod2) psp))"

subsection \<open>Tool-call requests\<close>

text \<open>
  \<^verbatim>\<open>request.Params.Arguments\<close> has Go type \<^verbatim>\<open>any\<close>. The values it can hold after
  JSON decoding: nil, a bool, a float64, a string, a slice, or a
  \<^verbatim>\<open>map[string]interface{}\<close>. No handler looks inside a number.
\<close>

datatype any =
    ANil
  | ABool bool
  | AFloat64 real
  | AString string
  | ASlice "any list"
  | AMap "string \<Rightarrow> any option"

record CallToolParams =
  ToolName :: string
  Arguments :: any

record CallToolRequest =
  Params :: CallToolParams

text \<open>
  \<^verbatim>\<open>args, ok := request.Params.Arguments.(map[string]interface{})\<close>: the assertion
  holds for a string-keyed map only; \<open>None\<close> is \<^verbatim>\<open>ok == false\<close>.
\<close>

fun assert_map :: "any \<Rightarrow> (string \<rightharpoonup> any) option" where
  "assert_map (AMap m) = Some m"
| "assert_map _ = None"

text \<open>
  \<^verbatim>\<open>s, _ := args[key].(string)\<close>: a missing key reads as the nil interface, and a
  failed assertion whose flag is dropped leaves the zero value, the empty string.
\<close>

fun assert_string :: "any option \<Rightarrow> string" where
  "assert_string (Some (AString s)) = s"
| "assert_string _ = []"

subsection \<open>The cluster client\<close>

text \<open>
  The clientset is the client-go library, outside the repository: the handlers receive
  it as a parameter. \<open>PodsGet cs namespace name\<close> is
  \<^verbatim>\<open>clientset.CoreV1().Pods(namespace).Get(ctx, name, metav1.GetOptions{})\<close> and
  \<open>PodsList cs namespace selector\<close> is
  \<^verbatim>\<open>clientset.CoreV1().Pods(namespace).List(ctx, metav1.ListOptions{LabelSelector: selector})\<close>,
  each returning the error (\<open>Inl\<close>) or the result. An error is not-found, an
  authorization failure, a network failure or any other error, with the text its
  \<^verbatim>\<open>Error()\<close> method gives.
\<close>

datatype k8s_error =
    NotFound string
  | Forbidden string
  | NetworkError string
  | OtherError string

fun Error :: "k8s_error \<Rightarrow> string" where
  "Error (NotFound msg) = msg"
| "Error (Forbidden msg) = msg"
| "Error (NetworkError msg) = msg"
| "Error (OtherError msg) = msg"

record ('s, 't) Clientset =
  PodsGet :: "string \<Rightarrow> string \<Rightarrow> k8s_error + ('s, 't) Pod"
  PodsList :: "string \<Rightarrow> string \<Rightarrow> k8s_error + ('s, 't) Pod list"

text \<open>
  Every call on the clientset is recorded: a handler takes the calls made so far and
  returns them with its own appended, so that "no cluster-API call" is a statement
  about the handler's result.
\<close>

datatype api_call = GetCall string string | ListCall string string

subsection \<open>Tool results\<close>

text \<open>
  Modelled from the spec: the result constructors \<^verbatim>\<open>mcp.NewToolResultError\<close> and
  \<^verbatim>\<open>mcp.NewToolResultJSON\<close> belong to the mcp-go library, which is not among the
  sources. A ToolResult is either an error payload (a message) or a success payload
  (the value given to the constructor together with its JSON text). The JSON encoder
  (\<^verbatim>\<open>encoding/json\<close>) is a parameter: \<open>Marshal\<close> and \<open>MarshalIndent\<close> return the
  encoder's error (\<open>Inl\<close>) or the text. \<^verbatim>\<open>NewToolResultJSON\<close> returns no result and a
  Go error when the encoder fails.
\<close>

datatype ('s, 't) payload =
    PodDocument "('s, 't) Pod"
  | PodItems "('s, 't) Pod list"
  | Bytes string

datatype ('s, 't) CallToolResult =
    ToolResultError string
  | ToolResultJSON "('s, 't) payload" string

record ('s, 't) Encoder =
  Marshal :: "('s, 't) payload \<Rightarrow> string + string"
  MarshalIndent :: "('s, 't) payload \<Rightarrow> string + string"

definition NewToolResultError :: "string \<Rightarrow> ('s, 't) CallToolResult" where
  "NewToolResultError msg = ToolResultError msg"

definition NewToolResultJSON ::
  "('s, 't) Encoder \<Rightarrow> ('s, 't) payload \<Rightarrow> ('s, 't) CallToolResult option \<times> string option" where
  "NewToolResultJSON enc data =
     (case Marshal enc data of
        Inl e \<Rightarrow> (None, Some (''unable to marshal JSON: '' @ e))
      | Inr text \<Rightarrow> (Some (ToolResultJSON data text), None))"

subsection \<open>The handlers (later variant)\<close>

text \<open>
  A handler returns Go's pair \<^verbatim>\<open>(*mcp.CallToolResult, error)\<close>, here a pair of
  options (\<open>None\<close> is nil), and the calls made on the clientset.

  \<^verbatim>\<open>
  func getPodByLabelHandler(ctx, request) (*mcp.CallToolResult, error) {
      args, ok := request.Params.Arguments.(map[string]interface{})
      if !ok { return mcp.NewToolResultError("Invalid arguments format"), nil }
      labelSelector, _ := args["labelSelector"].(string)
      if labelSelector == "" { return mcp.NewToolResultError("labelSelector is required"), nil }
      log.Println(labelSelector)
      listOptions := metav1.ListOptions{LabelSelector: labelSelector}
      pods, err := clientset.CoreV1().Pods("").List(ctx, listOptions)
      if err != nil {
          return mcp.NewToolResultError(fmt.Sprintf("Error getting pods list: %v", err)), nil
      }
      log.Printf("Found %d pods", len(pods.Items))
      for i := range pods.Items { deleteUnnecessaryFieldsFromPodSpec(&pods.Items[i]) }
      return mcp.NewToolResultJSON(pods.Items)
  }
  \<close>
  The loop sanitizes the element at each index in place. The two log lines go to the
  process's standard logger and are left out.
\<close>

function sanitize_items :: "('s, 't) Pod list \<Rightarrow> nat \<Rightarrow> ('s, 't) Pod list" where
  "sanitize_items items i =
     (if i < length items
      then sanitize_items (items[i := deleteUnnecessaryFieldsFromPodSpec (items ! i)]) (Suc i)
      else items)"
  by pat_completeness auto
termination
  by (relation "measure (\<lambda>(items, i). length items - i)") auto

declare sanitize_items.simps [simp del]

definition getPodByLabelHandler ::
  "('s, 't) Clientset \<Rightarrow> ('s, 't) Encoder \<Rightarrow> CallToolRequest \<Rightarrow> api_call list
    \<Rightarrow> (('s, 't) CallToolResult option \<times> string option) \<times> api_call list" where
  "getPodByLabelHandler cs enc request calls =
     (case assert_map (Arguments (Params request)) of
        None \<Rightarrow> ((Some (NewToolResultError ''Invalid arguments format''), None), calls)
      | Some args \<Rightarrow>
          (let labelSelector = assert_string (args ''labelSelector'') in
           if labelSelector = []
           then ((Some (NewToolResultError ''labelSelector is required''), None), calls)
           else
             (let calls' = calls @ [ListCall [] labelSelector] in
              case PodsList cs [] labelSelector of
                Inl err \<Rightarrow>
                  ((Some (NewToolResultError (''Error getting pods list: '' @ Error err)), None),
                   calls')
              | Inr items \<Rightarrow>
                  (NewToolResultJSON enc (PodItems (sanitize_items items 0)), calls'))))"

text \<open>
  \<^verbatim>\<open>
  func getPodDatailsHandler(ctx, request) (*mcp.CallToolResult, error) {
      args, ok := request.Params.Arguments.(map[string]interface{})
      if !ok { return mcp.NewToolResultError("Invalid arguments format"), nil }
      podName, _ := args["podName"].(string)
      namespace, _ := args["namespace"].(string)
      if namespace == "" { namespace = "default" }
      pod, err := clientset.CoreV1().Pods(namespace).Get(ctx, podName, metav1.GetOptions{})
      if err != nil {
          return mcp.NewToolResultError(fmt.Sprintf("Pod not found: %v", err)), nil
      }
      deleteUnnecessaryFieldsFromPodSpec(pod)
      return mcp.NewToolResultJSON(pod)
  }
  \<close>
\<close>

definition getPodDatailsHandler ::
  "('s, 't) Clientset \<Rightarrow> ('s, 't) Encoder \<Rightarrow> CallToolRequest \<Rightarrow> api_call list
    \<Rightarrow> (('s, 't) CallToolResult option \<times> string option) \<times> api_call list" where
  "getPodDatailsHandler cs enc request calls =
     (case assert_map (Arguments (Params request)) of
        None \<Rightarrow> ((Some (NewToolResultError ''Invalid arguments format''), None), calls)
      | Some args \<Rightarrow>
          (let podName = assert_string (args ''podName'');
               namespace0 = assert_string (args ''namespace'');
               namespace = (if namespace0 = [] then ''default'' else namespace0);
               calls' = calls @ [GetCall namespace podName]
           in case PodsGet cs namespace podName of
                Inl err \<Rightarrow>
                  ((Some (NewToolResultError (''Pod not found: '' @ Error err)), None), calls')
              | Inr pod \<Rightarrow>
                  (NewToolResultJSON enc (PodDocument (deleteUnnecessaryFieldsFromPodSpec pod)),
                   calls')))"

subsection \<open>The later variant's handlers with their run-time faults\<close>

text \<open>
  The two handlers again, this time with every call of the sanitizer made through the
  pointer the source passes, so that a panic of the sanitizer is a result (\<open>Inl\<close>) of
  the handler. \<^verbatim>\<open>&pods.Items[i]\<close> is the address of the element at \<open>i\<close>: an index
  out of range panics, an index in range gives a pointer that is not nil. The pod that
  \<^verbatim>\<open>Get\<close> returns without an error is a pointer to the pod the client decoded.
\<close>

definition element_address :: "'a list \<Rightarrow> nat \<Rightarrow> panic + 'a option" where
  "element_address items i =
     (if i < length items then Inr (Some (items ! i)) else Inl IndexOutOfRange)"

function sanitize_items_run :: "('s, 't) Pod list \<Rightarrow> nat \<Rightarrow> panic + ('s, 't) Pod list" where
  "sanitize_items_run items i =
     (if i < length items
      then (case element_address items i of
              Inl e \<Rightarrow> Inl e
            | Inr p \<Rightarrow>
                (case deleteUnnecessaryFieldsFromPodSpec_call p of
                   Inl e \<Rightarrow> Inl e
                 | Inr pod' \<Rightarrow> sanitize_items_run (items[i := pod']) (Suc i)))
      else Inr items)"
  by pat_completeness auto
termination
  by (relation "measure (\<lambda>(items, i). length items - i)") auto

declare sanitize_items_run.simps [simp del]

definition getPodByLabelHandler_run ::
  "('s, 't) Clientset \<Rightarrow> ('s, 't) Encoder \<Rightarrow> CallToolRequest \<Rightarrow> api_call list
    \<Rightarrow> panic + ((('s, 't) CallToolResult option \<times> string option) \<times> api_call list)" where
  "getPodByLabelHandler_run cs enc request calls =
     (case assert_map (Arguments (Params request)) of
        None \<Rightarrow> Inr ((Some (NewToolResultError ''Invalid arguments format''), None), calls)
      | Some args \<Rightarrow>
          (let labelSelector = assert_string (args ''labelSelector'') in
           if labelSelector = []
           then Inr ((Some (NewToolResultError ''labelSelector is required''), None), calls)
           else
             (let calls' = calls @ [ListCall [] labelSelector] in
              case PodsList cs [] labelSelector of
                Inl err \<Rightarrow>
                  Inr ((Some (NewToolResultError (''Error getting pods list: '' @ Error err)),
                        None), calls')
              | Inr items \<Rightarrow>
                  (case sanitize_items_run items 0 of
                     Inl e \<Rightarrow> Inl e
                   | Inr items' \<Rightarrow> Inr (NewToolResultJSON enc (PodItems items'), calls')))))"

definition getPodDatailsHandler_run ::
  "('s, 't) Clientset \<Rightarrow> ('s, 't) Encoder \<Rightarrow> CallToolRequest \<Rightarrow> api_call list
    \<Rightarrow> panic + ((('s, 't) CallToolResult option \<times> string option) \<times> api_call list)" where
  "getPodDatailsHandler_run cs enc request calls =
     (case assert_map (Arguments (Params request)) of
        None \<Rightarrow> Inr ((Some (NewToolResultError ''Invalid arguments format''), None), calls)
      | Some args \<Rightarrow>
          (let podName = assert_string (args ''podName'');
               namespace0 = assert_string (args ''namespace'');
               namespace = (if namespace0 = [] then ''default'' else namespace0);
               calls' = calls @ [GetCall namespace podName]
           in case PodsGet cs namespace podName of
                Inl err \<Rightarrow>
                  Inr ((Some (NewToolResultError (''Pod not found: '' @ Error err)), None),
                       calls')
              | Inr pod \<Rightarrow>
                  (case deleteUnnecessaryFieldsFromPodSpec_call (Some pod) of
                     Inl e \<Rightarrow> Inl e
                   | Inr pod' \<Rightarrow> Inr (NewToolResultJSON enc (PodDocument pod'), calls'))))"

subsection \<open>The handlers (earlier variant)\<close>

text \<open>
  \<^verbatim>\<open>
  func getByLabelHandler(ctx, request) (*mcp.CallToolResult, error) {
      args, ok := request.Params.Arguments.(map[string]interface{})
      if !ok { return mcp.NewToolResultError("Invalid arguments format"), nil }
      labelSelector, _ := args["labelSelector"].(string)
      listOptions := metav1.ListOptions{LabelSelector: labelSelector}
      pods, err := clientset.CoreV1().Pods("").List(ctx, listOptions)
      if err != nil { return mcp.NewToolResultError("Error getting pods list"), nil }
      // Delete noisy fields like ManagedFields
      for _, pod := range pods.Items { pod.ManagedFields = nil }
      jsonData, err := json.MarshalIndent(pods.Items, "", "  ")
      if err != nil { return mcp.NewToolResultError("Unmarshall Error"), nil }
      result, err := mcp.NewToolResultJSON(jsonData)
      if err != nil { return nil, err }
      return result, nil
  }
  \<close>
  In the loop \<^verbatim>\<open>pod\<close> is the range clause's value variable, a copy of the element: the
  assignment changes the copy, and the slice keeps its elements. The result is built
  from the bytes of the indented JSON text.
\<close>

fun range_clear_managedFields :: "('s, 't) Pod list \<Rightarrow> ('s, 't) Pod list \<Rightarrow> ('s, 't) Pod list" where
  "range_clear_managedFields items [] = items"
| "range_clear_managedFields items (pod # rest) =
     (let pod' = pod\<lparr>ObjectMeta := (ObjectMeta pod)\<lparr>ManagedFields := None\<rparr>\<rparr>
      in range_clear_managedFields items rest)"

definition getByLabelHandler ::
  "('s, 't) Clientset \<Rightarrow> ('s, 't) Encoder \<Rightarrow> CallToolRequest \<Rightarrow> api_call list
    \<Rightarrow> (('s, 't) CallToolResult option \<times> string option) \<times> api_call list" where
  "getByLabelHandler cs enc request calls =
     (case assert_map (Arguments (Params request)) of
        None \<Rightarrow> ((Some (NewToolResultError ''Invalid arguments format''), None), calls)
      | Some args \<Rightarrow>
          (let labelSelector = assert_string (args ''labelSelector'');
               calls' = calls @ [ListCall [] labelSelector]
           in case PodsList cs [] labelSelector of
                Inl err \<Rightarrow> ((Some (NewToolResultError ''Error getting pods list''), None), calls')
              | Inr items \<Rightarrow>
                  (let items' = range_clear_managedFields items items in
                   case MarshalIndent enc (PodItems items') of
                     Inl err \<Rightarrow> ((Some (NewToolResultError ''Unmarshall Error''), None), calls')
                   | Inr jsonData \<Rightarrow>
                       (case NewToolResultJSON enc (Bytes jsonData) of
                          (result, Some err) \<Rightarrow> ((None, Some err), calls')
                        | (result, None) \<Rightarrow> ((result, None), calls')))))"

text \<open>
  \<^verbatim>\<open>
  func getPodDatailsHandler(ctx, request) (*mcp.CallToolResult, error) {
      args, ok := request.Params.Arguments.(map[string]interface{})
      if !ok { return mcp.NewToolResultError("Invalid arguments format"), nil }
      podName, _ := args["podName"].(string)
      namespace, _ := args["namespace"].(string)
      if namespace == "" { namespace = "default" }
      pod, err := clientset.CoreV1().Pods(namespace).Get(ctx, podName, metav1.GetOptions{})
      if err != nil {
          return mcp.NewToolResultError(fmt.Sprintf("Pod not found: %v", err)), nil
      }
      pod.ManagedFields = nil
      jsonData, err := json.MarshalIndent(pod, "", "  ")
      if err != nil { return mcp.NewToolResultError("Unmarshall Error"), nil }
      result, err := mcp.NewToolResultJSON(jsonData)
      if err != nil { return nil, err }
      return result, nil
  }
  \<close>
\<close>

definition getPodDatailsHandler_early ::
  "('s, 't) Clientset \<Rightarrow> ('s, 't) Encoder \<Rightarrow> CallToolRequest \<Rightarrow> api_call list
    \<Rightarrow> (('s, 't) CallToolResult option \<times> string option) \<times> api_call list" where
  "getPodDatailsHandler_early cs enc request calls =
     (case assert_map (Arguments (Params request)) of
        None \<Rightarrow> ((Some (NewToolResultError ''Invalid arguments format''), None), calls)
      | Some args \<Rightarrow>
          (let podName = assert_string (args ''podName'');
               namespace0 = assert_string (args ''namespace'');
               namespace = (if namespace0 = [] then ''default'' else namespace0);
               calls' = calls @ [GetCall namespace podName]
           in case PodsGet cs namespace podName of
                Inl err \<Rightarrow>
                  ((Some (NewToolResultError (''Pod not found: '' @ Error err)), None), calls')
              | Inr pod \<Rightarrow>
                  (let pod' = pod\<lparr>ObjectMeta := (ObjectMeta pod)\<lparr>ManagedFields := None\<rparr>\<rparr> in
                   case MarshalIndent enc (PodDocument pod') of
                     Inl err \<Rightarrow> ((Some (NewToolResultError ''Unmarshall Error''), None), calls')
                   | Inr jsonData \<Rightarrow>
                       (case NewToolResultJSON enc (Bytes jsonData) of
                          (result, Some err) \<Rightarrow> ((None, Some err), calls')
                        | (result, None) \<Rightarrow> ((result, None), calls')))))"

subsection \<open>The metrics around the transport endpoints\<close>

text \<open>
  \<^verbatim>\<open>activeConnections\<close> is a Prometheus gauge and \<^verbatim>\<open>requestsTotal\<close> a counter vector
  with the label \<^verbatim>\<open>endpoint\<close>. \<^verbatim>\<open>Inc\<close> and \<^verbatim>\<open>Dec\<close> are atomic and move the value by one;
  the gauge is an integer here (its float64 is exact on the counts a process reaches).
\<close>

record Metrics =
  activeConnections :: int
  requestsTotal :: "string \<Rightarrow> nat"

text \<open>The two metrics as the registry holds them when the process starts.\<close>

definition registry :: Metrics where
  "registry = \<lparr>activeConnections = 0, requestsTotal = (\<lambda>endpoint. 0)\<rparr>"

text \<open>
  What one call does, as the sequence of its atomic operations. \<open>ServeHTTP\<close> stands
  for the inner handler of the library (or \<^verbatim>\<open>http.NotFound\<close>), which returns or
  panics and does not touch the metrics.
\<close>

datatype outcome = Returned | Panicked

datatype op =
    GaugeInc
  | GaugeDec
  | CounterInc string
  | ServeHTTP string outcome

fun exec_op :: "op \<Rightarrow> Metrics \<Rightarrow> Metrics" where
  "exec_op GaugeInc m = m\<lparr>activeConnections := activeConnections m + 1\<rparr>"
| "exec_op GaugeDec m = m\<lparr>activeConnections := activeConnections m - 1\<rparr>"
| "exec_op (CounterInc endpoint) m =
     m\<lparr>requestsTotal := (requestsTotal m)(endpoint := Suc (requestsTotal m endpoint))\<rparr>"
| "exec_op (ServeHTTP h oc) m = m"

fun run :: "op list \<Rightarrow> Metrics \<Rightarrow> Metrics" where
  "run [] m = m"
| "run (x # xs) m = run xs (exec_op x m)"

text \<open>
  \<^verbatim>\<open>
  mux.Handle("/sse", http.HandlerFunc(func(w, r) {
      activeConnections.Inc()
      defer activeConnections.Dec()
      requestsTotal.WithLabelValues("sse").Inc()
      sseServer.SSEHandler().ServeHTTP(w, r)
  }))
  mux.Handle("/message", http.HandlerFunc(func(w, r) {
      requestsTotal.WithLabelValues("message").Inc()
      sseServer.MessageHandler().ServeHTTP(w, r)
  }))
  mux.Handle("/", http.HandlerFunc(func(w, r) {
      if r.URL.Path == "/" {
          activeConnections.Inc()
          defer activeConnections.Dec()
          requestsTotal.WithLabelValues("root").Inc()
          sseServer.SSEHandler().ServeHTTP(w, r)
      } else {
          http.NotFound(w, r)
      }
  }))
  \<close>
  A deferred call runs when the function returns and when it panics, so the
  \<^verbatim>\<open>Dec\<close> follows \<^verbatim>\<open>ServeHTTP\<close> whatever its outcome. Both variants of the file have
  the same three closures.
\<close>

definition sse_endpoint :: "outcome \<Rightarrow> op list" where
  "sse_endpoint oc = [GaugeInc, CounterInc ''sse'', ServeHTTP ''SSEHandler'' oc, GaugeDec]"

definition message_endpoint :: "outcome \<Rightarrow> op list" where
  "message_endpoint oc = [CounterInc ''message'', ServeHTTP ''MessageHandler'' oc]"

definition root_endpoint :: "string \<Rightarrow> outcome \<Rightarrow> op list" where
  "root_endpoint path oc =
     (if path = ''/''
      then [GaugeInc, CounterInc ''root'', ServeHTTP ''SSEHandler'' oc, GaugeDec]
      else [ServeHTTP ''NotFound'' oc])"

text \<open>
  The \<^verbatim>\<open>http.ServeMux\<close> with its four patterns: a pattern without a trailing slash
  matches its path only, and \<^verbatim>\<open>"/"\<close> takes every other path.
\<close>

definition mux :: "string \<Rightarrow> outcome \<Rightarrow> op list" where
  "mux path oc =
     (if path = ''/metrics'' then [ServeHTTP ''metrics'' oc]
      else if path = ''/sse'' then sse_endpoint oc
      else if path = ''/message'' then message_endpoint oc
      else root_endpoint path oc)"

text \<open>The operations of a call up to the moment the inner handler is entered.\<close>

fun on_entry :: "op list \<Rightarrow> op list" where
  "on_entry [] = []"
| "on_entry (ServeHTTP h oc # rest) = []"
| "on_entry (x # rest) = x # on_entry rest"

text \<open>
  Calls run concurrently: the operations of the calls in flight interleave in any
  order that keeps each call's own order. \<open>interleaving ts zs\<close>: the trace \<open>zs\<close> runs
  the calls whose remaining operations are \<open>ts\<close> to completion.
\<close>

inductive interleaving :: "op list list \<Rightarrow> op list \<Rightarrow> bool" where
  finished: "list_all (\<lambda>t. t = []) ts \<Longrightarrow> interleaving ts []"
| step: "i < length ts \<Longrightarrow> ts ! i = x # rest \<Longrightarrow> interleaving (ts[i := rest]) zs
          \<Longrightarrow> interleaving ts (x # zs)"

text \<open>The number of calls of a list of calls, (path, outcome) each, on one path.\<close>

definition calls_on :: "string \<Rightarrow> (string \<times> outcome) list \<Rightarrow> nat" where
  "calls_on path cs = length (filter (\<lambda>c. fst c = path) cs)"

text \<open>
  A scheduler makes an interleaving by naming, step after step, the call that runs its
  next operation; it fails when a step names no call or a finished one, or when
  operations are left at the end.
\<close>

fun schedule :: "nat list \<Rightarrow> op list list \<Rightarrow> op list option" where
  "schedule [] ts = (if list_all (\<lambda>t. t = []) ts then Some [] else None)"
| "schedule (i # is) ts =
     (if i < length ts
      then (case ts ! i of
              [] \<Rightarrow> None
            | x # rest \<Rightarrow> map_option ((#) x) (schedule is (ts[i := rest])))
      else None)"

text \<open>
  What a list of operations adds to the gauge, and to the counter of one endpoint.
\<close>

fun gauge_delta :: "op list \<Rightarrow> int" where
  "gauge_delta [] = 0"
| "gauge_delta (GaugeInc # xs) = gauge_delta xs + 1"
| "gauge_delta (GaugeDec # xs) = gauge_delta xs - 1"
| "gauge_delta (x # xs) = gauge_delta xs"

fun counter_delta :: "string \<Rightarrow> op list \<Rightarrow> nat" where
  "counter_delta endpoint [] = 0"
| "counter_delta endpoint (CounterInc e # xs) =
     (if e = endpoint then Suc (counter_delta endpoint xs) else counter_delta endpoint xs)"
| "counter_delta endpoint (x # xs) = counter_delta endpoint xs"

subsection \<open>Example values\<close>

text \<open>
  A small cluster for concrete runs: three pods that carry the label
  \<^verbatim>\<open>app=nginx\<close>, the first with both redacted annotations and a managed-fields entry,
  the second with nil annotations and nil managed fields. As client-go does, the
  client refuses an empty pod name with an error of its own.
\<close>

definition mk_pod ::
  "string \<Rightarrow> (string \<rightharpoonup> string) option \<Rightarrow> ManagedFieldsEntry list option \<Rightarrow> (unit, unit) Pod" where
  "mk_pod name anns mf =
     \<lparr>ObjectMeta = \<lparr>Name = name, Namespace = ''default'',
                     Labels = Some [''app'' \<mapsto> ''nginx''],
                     Annotations = anns, ManagedFields = mf\<rparr>,
      Spec = (), Status = ()\<rparr>"

definition nginx_a :: "(unit, unit) Pod" where
  "nginx_a = mk_pod ''nginx-a''
     (Some [last_applied_configuration \<mapsto> ''{}'', psp \<mapsto> ''restricted'',
            ''owner'' \<mapsto> ''team-a''])
     (Some [\<lparr>Manager = ''kubectl'', Operation = ''Apply'', APIVersion = ''v1'',
             FieldsV1 = ''{}''\<rparr>])"

definition nginx_b :: "(unit, unit) Pod" where
  "nginx_b = mk_pod ''nginx-b'' None None"

definition nginx_c :: "(unit, unit) Pod" where
  "nginx_c = mk_pod ''nginx-c'' (Some [''owner'' \<mapsto> ''team-b'']) (Some [])"

definition example_cluster :: "(unit, unit) Clientset" where
  "example_cluster =
     \<lparr>PodsGet = (\<lambda>namespace name.
        if name = [] then Inl (OtherError ''resource name may not be empty'')
        else if namespace = ''default'' \<and> name = ''nginx-a'' then Inr nginx_a
        else Inl (NotFound (''pods '' @ name @ '' not found''))),
      PodsList = (\<lambda>namespace selector.
        if selector = ''app=nginx'' \<or> selector = [] then Inr [nginx_a, nginx_b, nginx_c]
        else Inr [])\<rparr>"

definition unreachable_cluster :: "(unit, unit) Clientset" where
  "unreachable_cluster =
     \<lparr>PodsGet = (\<lambda>namespace name. Inl (NetworkError ''connection refused'')),
      PodsList = (\<lambda>namespace selector. Inl (Forbidden ''pods is forbidden''))\<rparr>"

text \<open>
  An encoder that never fails. It writes a pod as its name, followed by a mark for a
  managed-fields list that holds entries and a mark for each of the two named
  annotation keys the pod carries.
\<close>

definition pod_text :: "(unit, unit) Pod \<Rightarrow> string" where
  "pod_text pod =
     Name (ObjectMeta pod)
     @ (case ManagedFields (ObjectMeta pod) of
          None \<Rightarrow> [] | Some entries \<Rightarrow> (if entries = [] then [] else ''+managedFields''))
     @ (case Annotations (ObjectMeta pod) of
          None \<Rightarrow> []
        | Some anns \<Rightarrow>
            (if anns last_applied_configuration = None then [] else ''+last-applied'')
            @ (if anns psp = None then [] else ''+psp''))"

fun example_text :: "(unit, unit) payload \<Rightarrow> string" where
  "example_text (PodDocument pod) = pod_text pod"
| "example_text (PodItems items) = concat (map (\<lambda>pod. pod_text pod @ '';'') items)"
| "example_text (Bytes b) = b"

definition example_encoder :: "(unit, unit) Encoder" where
  "example_encoder =
     \<lparr>Marshal = (\<lambda>data. Inr (example_text data)),
      MarshalIndent = (\<lambda>data. Inr (example_text data))\<rparr>"

definition tool_call :: "string \<Rightarrow> any \<Rightarrow> CallToolRequest" where
  "tool_call name arguments = \<lparr>Params = \<lparr>ToolName = name, Arguments = arguments\<rparr>\<rparr>"

text \<open>
  Four overlapping calls and one of their interleavings: the two streams are open
  while the two messages are posted, and two of the inner handlers panic.
\<close>

definition example_calls :: "(string \<times> outcome) list" where
  "example_calls =
     [(''/sse'', Returned), (''/message'', Panicked), (''/'', Panicked), (''/message'', Returned)]"

definition example_trace :: "op list" where
  "example_trace =
     [GaugeInc, GaugeInc, CounterInc ''message'', CounterInc ''root'', CounterInc ''sse'',
      ServeHTTP ''MessageHandler'' Panicked, CounterInc ''message'',
      ServeHTTP ''SSEHandler'' Panicked, GaugeDec,
      ServeHTTP ''MessageHandler'' Returned, ServeHTTP ''SSEHandler'' Returned, GaugeDec]"

section \<open>Properties of the sanitizer\<close>

lemma builtin_delete_nil [simp]: "builtin_delete None k = None"
  by (simp add: builtin_delete_def)

lemma builtin_delete_Some [simp]: "builtin_delete (Some f) k = Some (f(k := None))"
  by (simp add: builtin_delete_def)

lemma sanitize_ObjectMeta:
  "ObjectMeta (deleteUnnecessaryFieldsFromPodSpec pod) =
     (ObjectMeta pod)\<lparr>ManagedFields := None,
        Annotations := builtin_delete
          (builtin_delete (Annotations (ObjectMeta pod)) last_applied_configuration) psp\<rparr>"
  by (simp add: deleteUnnecessaryFieldsFromPodSpec_def Let_def)

lemma sanitize_frame:
  "deleteUnnecessaryFieldsFromPodSpec pod =
     pod\<lparr>ObjectMeta := (ObjectMeta pod)\<lparr>ManagedFields := None,
        Annotations := builtin_delete
          (builtin_delete (Annotations (ObjectMeta pod)) last_applied_configuration) psp\<rparr>\<rparr>"
  by (simp add: deleteUnnecessaryFieldsFromPodSpec_def Let_def)

lemma keys_differ: "last_applied_configuration \<noteq> psp"
  by (simp add: last_applied_configuration_def psp_def)

text \<open>
  C2. Whatever the pod's managed-fields list holds, it is nil after the sanitizer ran.
\<close>

theorem sanitize_clears_managedFields:
  "ManagedFields (ObjectMeta (deleteUnnecessaryFieldsFromPodSpec pod)) = None"
  by (simp add: sanitize_ObjectMeta)

text \<open>
  C3. When the annotations map holds both named keys, the sanitized pod's annotations
  are the same map without exactly those two keys: every other key keeps its value.
  Apart from the managed-fields list and the annotations, the pod is the pod given:
  name, namespace, labels, spec, status and whatever else the record carries.
\<close>

theorem sanitize_removes_exactly_two_annotations:
  assumes "Annotations (ObjectMeta pod) = Some anns"
    and "last_applied_configuration \<in> dom anns"
    and "psp \<in> dom anns"
  shows "\<exists>anns'.
           Annotations (ObjectMeta (deleteUnnecessaryFieldsFromPodSpec pod)) = Some anns'
         \<and> dom anns' = dom anns - {last_applied_configuration, psp}
         \<and> (\<forall>k. k \<noteq> last_applied_configuration \<and> k \<noteq> psp \<longrightarrow> anns' k = anns k)
         \<and> deleteUnnecessaryFieldsFromPodSpec pod =
             pod\<lparr>ObjectMeta := (ObjectMeta pod)\<lparr>ManagedFields := None,
                                                 Annotations := Some anns'\<rparr>\<rparr>
         \<and> Name (ObjectMeta (deleteUnnecessaryFieldsFromPodSpec pod)) = Name (ObjectMeta pod)
         \<and> Namespace (ObjectMeta (deleteUnnecessaryFieldsFromPodSpec pod))
             = Namespace (ObjectMeta pod)
         \<and> Labels (ObjectMeta (deleteUnnecessaryFieldsFromPodSpec pod)) = Labels (ObjectMeta pod)
         \<and> Spec (deleteUnnecessaryFieldsFromPodSpec pod) = Spec pod
         \<and> Status (deleteUnnecessaryFieldsFromPodSpec pod) = Status pod
         \<and> Pod.more (deleteUnnecessaryFieldsFromPodSpec pod) = Pod.more pod"
proof -
  let ?anns' = "anns(last_applied_configuration := None, psp := None)"
  have ann: "Annotations (ObjectMeta (deleteUnnecessaryFieldsFromPodSpec pod)) = Some ?anns'"
    using assms(1) by (simp add: sanitize_ObjectMeta)
  have dom: "dom ?anns' = dom anns - {last_applied_configuration, psp}"
    by auto
  have others: "\<forall>k. k \<noteq> last_applied_configuration \<and> k \<noteq> psp \<longrightarrow> ?anns' k = anns k"
    by simp
  have frame: "deleteUnnecessaryFieldsFromPodSpec pod =
      pod\<lparr>ObjectMeta := (ObjectMeta pod)\<lparr>ManagedFields := None, Annotations := Some ?anns'\<rparr>\<rparr>"
    using assms(1) by (simp add: sanitize_frame)
  have fields:
    "Name (ObjectMeta (deleteUnnecessaryFieldsFromPodSpec pod)) = Name (ObjectMeta pod)"
    "Namespace (ObjectMeta (deleteUnnecessaryFieldsFromPodSpec pod)) = Namespace (ObjectMeta pod)"
    "Labels (ObjectMeta (deleteUnnecessaryFieldsFromPodSpec pod)) = Labels (ObjectMeta pod)"
    "Spec (deleteUnnecessaryFieldsFromPodSpec pod) = Spec pod"
    "Status (deleteUnnecessaryFieldsFromPodSpec pod) = Status pod"
    "Pod.more (deleteUnnecessaryFieldsFromPodSpec pod) = Pod.more pod"
    by (simp_all add: sanitize_frame)
  from ann dom others frame fields show ?thesis
    by blast
qed

theorem sanitize_removes_exactly_two_annotations_witness:
  "\<exists>anns'.
     Annotations (ObjectMeta (deleteUnnecessaryFieldsFromPodSpec nginx_a)) = Some anns'
   \<and> dom anns' = {''owner''}
   \<and> anns' ''owner'' = Some ''team-a''
   \<and> ManagedFields (ObjectMeta (deleteUnnecessaryFieldsFromPodSpec nginx_a)) = None
   \<and> Labels (ObjectMeta (deleteUnnecessaryFieldsFromPodSpec nginx_a))
       = Some [''app'' \<mapsto> ''nginx'']"
proof -
  let ?anns = "[last_applied_configuration \<mapsto> ''{}'', psp \<mapsto> ''restricted'',
                ''owner'' \<mapsto> ''team-a'']"
  have a: "Annotations (ObjectMeta nginx_a) = Some ?anns"
    by (simp add: nginx_a_def mk_pod_def)
  have b: "last_applied_configuration \<in> dom ?anns"
    by simp
  have c: "psp \<in> dom ?anns"
    by simp
  have o: "''owner'' \<noteq> last_applied_configuration" "''owner'' \<noteq> psp"
    by (simp_all add: last_applied_configuration_def psp_def)
  from sanitize_removes_exactly_two_annotations [OF a b c]
  obtain anns' where h:
    "Annotations (ObjectMeta (deleteUnnecessaryFieldsFromPodSpec nginx_a)) = Some anns'"
    "dom anns' = dom ?anns - {last_applied_configuration, psp}"
    "\<forall>k. k \<noteq> last_applied_configuration \<and> k \<noteq> psp \<longrightarrow> anns' k = ?anns k"
    "deleteUnnecessaryFieldsFromPodSpec nginx_a =
       nginx_a\<lparr>ObjectMeta := (ObjectMeta nginx_a)\<lparr>ManagedFields := None,
                                                    Annotations := Some anns'\<rparr>\<rparr>"
    "Labels (ObjectMeta (deleteUnnecessaryFieldsFromPodSpec nginx_a))
       = Labels (ObjectMeta nginx_a)"
    by blast
  have d: "dom anns' = {''owner''}"
    using h(2) o keys_differ by auto
  have e: "anns' ''owner'' = Some ''team-a''"
    using h(3) o by simp
  have f: "ManagedFields (ObjectMeta (deleteUnnecessaryFieldsFromPodSpec nginx_a)) = None"
    by (subst h(4)) simp
  have g: "Labels (ObjectMeta (deleteUnnecessaryFieldsFromPodSpec nginx_a))
             = Some [''app'' \<mapsto> ''nginx'']"
    using h(5) by (simp add: nginx_a_def mk_pod_def)
  from h(1) d e f g show ?thesis
    by blast
qed

text \<open>
  C7. Sanitizing a sanitized pod changes nothing.
\<close>

theorem sanitize_idempotent:
  "deleteUnnecessaryFieldsFromPodSpec (deleteUnnecessaryFieldsFromPodSpec pod)
     = deleteUnnecessaryFieldsFromPodSpec pod"
  by (cases "Annotations (ObjectMeta pod)") (simp_all add: sanitize_frame)

lemma sanitize_items_from:
  "sanitize_items items i = take i items @ map deleteUnnecessaryFieldsFromPodSpec (drop i items)"
proof (induction items i rule: sanitize_items.induct)
  case (1 items i)
  show ?case
  proof (cases "i < length items")
    case True
    let ?f = "deleteUnnecessaryFieldsFromPodSpec :: ('a, 'b) Pod \<Rightarrow> ('a, 'b) Pod"
    let ?items' = "items[i := ?f (items ! i)]"
    have "sanitize_items items i = sanitize_items ?items' (Suc i)"
      using True by (subst sanitize_items.simps) simp
    also have "\<dots> = take (Suc i) ?items' @ map ?f (drop (Suc i) ?items')"
      using "1.IH" [OF True] .
    also have "take (Suc i) ?items' = take i items @ [?f (items ! i)]"
      using True by (simp add: take_Suc_conv_app_nth)
    also have "drop (Suc i) ?items' = drop (Suc i) items"
      by simp
    finally show ?thesis
      using True by (simp add: Cons_nth_drop_Suc [symmetric])
  next
    case False
    then show ?thesis by (subst sanitize_items.simps) simp
  qed
qed

lemma sanitize_items_all:
  "sanitize_items items 0 = map deleteUnnecessaryFieldsFromPodSpec items"
  by (simp add: sanitize_items_from)

lemma sanitize_call_Some:
  "deleteUnnecessaryFieldsFromPodSpec_call (Some pod)
     = Inr (deleteUnnecessaryFieldsFromPodSpec pod)"
  by (simp add: deleteUnnecessaryFieldsFromPodSpec_call_def store_ManagedFields_def
      delete_Annotation_def load_Annotations_def sanitize_frame)

lemma sanitize_call_nil: "deleteUnnecessaryFieldsFromPodSpec_call None = Inl NilPointerDereference"
  by (simp add: deleteUnnecessaryFieldsFromPodSpec_call_def store_ManagedFields_def)

lemma sanitize_call_panics_iff:
  "(\<exists>e. deleteUnnecessaryFieldsFromPodSpec_call p = Inl e) = (p = None)"
  by (cases p) (simp_all add: sanitize_call_Some sanitize_call_nil)

lemma sanitize_items_run_pure:
  "sanitize_items_run items i = Inr (sanitize_items items i)"
proof (induction items i rule: sanitize_items.induct)
  case (1 items i)
  show ?case
  proof (cases "i < length items")
    case True
    have "sanitize_items_run items i
        = sanitize_items_run (items[i := deleteUnnecessaryFieldsFromPodSpec (items ! i)]) (Suc i)"
      using True
      by (subst sanitize_items_run.simps) (simp add: element_address_def sanitize_call_Some)
    also have "\<dots> = Inr (sanitize_items
        (items[i := deleteUnnecessaryFieldsFromPodSpec (items ! i)]) (Suc i))"
      using "1.IH" [OF True] .
    also have "sanitize_items (items[i := deleteUnnecessaryFieldsFromPodSpec (items ! i)]) (Suc i)
        = sanitize_items items i"
      using True by (subst (2) sanitize_items.simps) simp
    finally show ?thesis .
  next
    case False
    then show ?thesis
      by (subst sanitize_items_run.simps, subst sanitize_items.simps) simp
  qed
qed

lemma getPodByLabelHandler_run_pure:
  "getPodByLabelHandler_run cs enc request calls
     = Inr (getPodByLabelHandler cs enc request calls)"
  by (simp add: getPodByLabelHandler_run_def getPodByLabelHandler_def Let_def
      sanitize_items_run_pure split: option.splits sum.splits)

lemma getPodDatailsHandler_run_pure:
  "getPodDatailsHandler_run cs enc request calls
     = Inr (getPodDatailsHandler cs enc request calls)"
  by (simp add: getPodDatailsHandler_run_def getPodDatailsHandler_def Let_def
      sanitize_call_Some split: option.splits sum.splits)

text \<open>
  C8. Run statement by statement, the sanitizer panics on the nil pointer and on no
  other argument: called on a pod, whatever its annotations map and managed-fields
  list hold, it returns the sanitized pod, and a pod whose map and list are nil comes
  back as it was. The nil pointer is no pod record, and no caller passes it: the
  loop of \<^verbatim>\<open>getPodByLabelHandler\<close> and both handlers, run with the sanitizer's panics as
  results, end without a panic for every client, encoder and request, with the result
  of the handlers above.
\<close>

theorem sanitize_never_panics:
  "deleteUnnecessaryFieldsFromPodSpec_call (Some pod)
       = Inr (deleteUnnecessaryFieldsFromPodSpec pod)
   \<and> deleteUnnecessaryFieldsFromPodSpec_call
        (Some (pod\<lparr>ObjectMeta := (ObjectMeta pod)\<lparr>Annotations := None,
                                                    ManagedFields := None\<rparr>\<rparr>))
       = Inr (pod\<lparr>ObjectMeta := (ObjectMeta pod)\<lparr>Annotations := None,
                                                     ManagedFields := None\<rparr>\<rparr>)
   \<and> (\<exists>e. deleteUnnecessaryFieldsFromPodSpec_call p = Inl e) = (p = None)
   \<and> sanitize_items_run items 0 = Inr (map deleteUnnecessaryFieldsFromPodSpec items)
   \<and> getPodByLabelHandler_run cs enc request calls
       = Inr (getPodByLabelHandler cs enc request calls)
   \<and> getPodDatailsHandler_run cs enc request calls
       = Inr (getPodDatailsHandler cs enc request calls)"
proof -
  have nil_fields: "deleteUnnecessaryFieldsFromPodSpec_call
        (Some (pod\<lparr>ObjectMeta := (ObjectMeta pod)\<lparr>Annotations := None,
                                                    ManagedFields := None\<rparr>\<rparr>))
       = Inr (pod\<lparr>ObjectMeta := (ObjectMeta pod)\<lparr>Annotations := None,
                                                     ManagedFields := None\<rparr>\<rparr>)"
    by (simp add: sanitize_call_Some sanitize_frame)
  have loop: "sanitize_items_run items 0 = Inr (map deleteUnnecessaryFieldsFromPodSpec items)"
    by (simp add: sanitize_items_run_pure sanitize_items_all)
  from sanitize_call_Some [of pod] nil_fields sanitize_call_panics_iff [of p] loop
    getPodByLabelHandler_run_pure [of cs enc request calls]
    getPodDatailsHandler_run_pure [of cs enc request calls]
  show ?thesis
    by blast
qed

section \<open>Properties of the handlers\<close>

lemma range_clear_managedFields_keeps: "range_clear_managedFields items xs = items"
  by (induction xs) (simp_all add: Let_def)

lemma sanitize_annotation_keys:
  assumes "Annotations (ObjectMeta (deleteUnnecessaryFieldsFromPodSpec pod)) = Some anns"
  shows "last_applied_configuration \<notin> dom anns \<and> psp \<notin> dom anns"
proof (cases "Annotations (ObjectMeta pod)")
  case None
  with assms show ?thesis by (simp add: sanitize_ObjectMeta)
next
  case (Some a)
  with assms have "anns = a(last_applied_configuration := None, psp := None)"
    by (simp add: sanitize_ObjectMeta)
  then show ?thesis by (simp add: keys_differ)
qed

lemma example_texts [simp]:
  "pod_text nginx_a = ''nginx-a+managedFields+last-applied+psp''"
  "pod_text nginx_b = ''nginx-b''"
  "pod_text nginx_c = ''nginx-c''"
  "pod_text (deleteUnnecessaryFieldsFromPodSpec nginx_a) = ''nginx-a''"
  "pod_text (deleteUnnecessaryFieldsFromPodSpec nginx_b) = ''nginx-b''"
  "pod_text (deleteUnnecessaryFieldsFromPodSpec nginx_c) = ''nginx-c''"
  by (simp_all add: pod_text_def nginx_a_def nginx_b_def nginx_c_def mk_pod_def
      sanitize_ObjectMeta last_applied_configuration_def psp_def)

lemma sanitize_Name [simp]:
  "Name (ObjectMeta (deleteUnnecessaryFieldsFromPodSpec pod)) = Name (ObjectMeta pod)"
  by (simp add: sanitize_ObjectMeta)

subsection \<open>The later variant\<close>

text \<open>
  When the arguments give a selector and the list call succeeds with \<open>items\<close>,
  \<^verbatim>\<open>getPodByLabelHandler\<close> hands the encoder the list of the same length whose entry at
  every index is the sanitized pod of that index: the client's order, managed fields
  nil, the two named annotation keys gone. When the encoder succeeds, that list and its
  JSON text are the success result.
\<close>

theorem list_success_sanitized_in_order:
  assumes "assert_map (Arguments (Params request)) = Some args"
    and "assert_string (args ''labelSelector'') \<noteq> []"
    and "PodsList cs [] (assert_string (args ''labelSelector'')) = Inr items"
    and "Marshal enc (PodItems (map deleteUnnecessaryFieldsFromPodSpec items)) = Inr text"
  shows "\<exists>out.
           fst (getPodByLabelHandler cs enc request calls)
             = (Some (ToolResultJSON (PodItems out) text), None)
         \<and> length out = length items
         \<and> (\<forall>i<length items.
               out ! i = deleteUnnecessaryFieldsFromPodSpec (items ! i)
             \<and> ManagedFields (ObjectMeta (out ! i)) = None
             \<and> (\<forall>anns. Annotations (ObjectMeta (out ! i)) = Some anns
                   \<longrightarrow> last_applied_configuration \<notin> dom anns \<and> psp \<notin> dom anns))"
proof -
  let ?out = "map deleteUnnecessaryFieldsFromPodSpec items"
  have res: "fst (getPodByLabelHandler cs enc request calls)
      = (Some (ToolResultJSON (PodItems ?out) text), None)"
    using assms
    by (simp add: getPodByLabelHandler_def Let_def sanitize_items_all NewToolResultJSON_def)
  have each: "\<forall>i<length items.
       ?out ! i = deleteUnnecessaryFieldsFromPodSpec (items ! i)
     \<and> ManagedFields (ObjectMeta (?out ! i)) = None
     \<and> (\<forall>anns. Annotations (ObjectMeta (?out ! i)) = Some anns
           \<longrightarrow> last_applied_configuration \<notin> dom anns \<and> psp \<notin> dom anns)"
  proof (intro allI impI)
    fix i assume "i < length items"
    then have nth: "?out ! i = deleteUnnecessaryFieldsFromPodSpec (items ! i)"
      by simp
    have mf: "ManagedFields (ObjectMeta (?out ! i)) = None"
      unfolding nth by (simp add: sanitize_ObjectMeta)
    have keys: "\<forall>anns. Annotations (ObjectMeta (?out ! i)) = Some anns
           \<longrightarrow> last_applied_configuration \<notin> dom anns \<and> psp \<notin> dom anns"
      unfolding nth using sanitize_annotation_keys by blast
    from nth mf keys show "?out ! i = deleteUnnecessaryFieldsFromPodSpec (items ! i)
     \<and> ManagedFields (ObjectMeta (?out ! i)) = None
     \<and> (\<forall>anns. Annotations (ObjectMeta (?out ! i)) = Some anns
           \<longrightarrow> last_applied_configuration \<notin> dom anns \<and> psp \<notin> dom anns)"
      by blast
  qed
  from res each show ?thesis
    by (intro exI [of _ ?out]) simp
qed

theorem list_success_sanitized_in_order_witness:
  "\<exists>out.
     fst (getPodByLabelHandler example_cluster example_encoder
            (tool_call ''get_pods_by_label'' (AMap [''labelSelector'' \<mapsto> AString ''app=nginx'']))
            [])
       = (Some (ToolResultJSON (PodItems out) ''nginx-a;nginx-b;nginx-c;''), None)
   \<and> length out = 3
   \<and> out ! 0 = deleteUnnecessaryFieldsFromPodSpec nginx_a
   \<and> out ! 1 = deleteUnnecessaryFieldsFromPodSpec nginx_b
   \<and> out ! 2 = deleteUnnecessaryFieldsFromPodSpec nginx_c
   \<and> ManagedFields (ObjectMeta (out ! 0)) = None"
proof -
  let ?args = "[''labelSelector'' \<mapsto> AString ''app=nginx'']"
  let ?req = "tool_call ''get_pods_by_label'' (AMap ?args)"
  let ?items = "[nginx_a, nginx_b, nginx_c]"
  have h1: "assert_map (Arguments (Params ?req)) = Some ?args"
    by (simp add: tool_call_def)
  have sel: "assert_string (?args ''labelSelector'') = ''app=nginx''"
    by simp
  have h2: "assert_string (?args ''labelSelector'') \<noteq> []"
    by simp
  have h3: "PodsList example_cluster [] (assert_string (?args ''labelSelector'')) = Inr ?items"
    unfolding sel by (simp add: example_cluster_def)
  have h4: "Marshal example_encoder (PodItems (map deleteUnnecessaryFieldsFromPodSpec ?items))
              = Inr ''nginx-a;nginx-b;nginx-c;''"
    by (simp add: example_encoder_def)
  from list_success_sanitized_in_order [OF h1 h2 h3 h4, of "[]"]
  obtain out where o:
    "fst (getPodByLabelHandler example_cluster example_encoder ?req [])
       = (Some (ToolResultJSON (PodItems out) ''nginx-a;nginx-b;nginx-c;''), None)"
    "length out = length ?items"
    "\<forall>i<length ?items.
        out ! i = deleteUnnecessaryFieldsFromPodSpec (?items ! i)
      \<and> ManagedFields (ObjectMeta (out ! i)) = None
      \<and> (\<forall>anns. Annotations (ObjectMeta (out ! i)) = Some anns
            \<longrightarrow> last_applied_configuration \<notin> dom anns \<and> psp \<notin> dom anns)"
    by blast
  have l: "length out = 3" using o(2) by simp
  have e0: "out ! 0 = deleteUnnecessaryFieldsFromPodSpec nginx_a"
       "ManagedFields (ObjectMeta (out ! 0)) = None"
    using o(3) [rule_format, of 0] by (simp_all add: sanitize_ObjectMeta)
  have e1: "out ! 1 = deleteUnnecessaryFieldsFromPodSpec nginx_b"
    using o(3) [rule_format, of 1] by simp
  have e2: "out ! 2 = deleteUnnecessaryFieldsFromPodSpec nginx_c"
    using o(3) [rule_format, of 2] by simp
  from o(1) l e0 e1 e2 show ?thesis by blast
qed

lemma get_failure:
  assumes "assert_map (Arguments (Params request)) = Some args"
    and "PodsGet cs (if assert_string (args ''namespace'') = [] then ''default''
                     else assert_string (args ''namespace''))
                    (assert_string (args ''podName'')) = Inl err"
  shows "fst (getPodDatailsHandler cs enc request calls)
          = (Some (ToolResultError (''Pod not found: '' @ Error err)), None)"
  using assms by (simp add: getPodDatailsHandler_def Let_def NewToolResultError_def)

lemma list_failure:
  assumes "assert_map (Arguments (Params request)) = Some args"
    and "assert_string (args ''labelSelector'') \<noteq> []"
    and "PodsList cs [] (assert_string (args ''labelSelector'')) = Inl err"
  shows "fst (getPodByLabelHandler cs enc request calls)
          = (Some (ToolResultError (''Error getting pods list: '' @ Error err)), None)"
  using assms by (simp add: getPodByLabelHandler_def Let_def NewToolResultError_def)

text \<open>
  When the get call of \<^verbatim>\<open>getPodDatailsHandler\<close> or the list call of
  \<^verbatim>\<open>getPodByLabelHandler\<close> fails, the handler returns an error result whose message
  ends with the error's own message, and a nil Go error.
\<close>

theorem cluster_failure_is_an_error_result:
  "(assert_map (Arguments (Params request)) = Some args
      \<and> PodsGet cs (if assert_string (args ''namespace'') = [] then ''default''
                     else assert_string (args ''namespace''))
                    (assert_string (args ''podName'')) = Inl err
    \<longrightarrow> fst (getPodDatailsHandler cs enc request calls)
          = (Some (ToolResultError (''Pod not found: '' @ Error err)), None)
        \<and> sublist (Error err) (''Pod not found: '' @ Error err))
 \<and> (assert_map (Arguments (Params request)) = Some args
      \<and> assert_string (args ''labelSelector'') \<noteq> []
      \<and> PodsList cs [] (assert_string (args ''labelSelector'')) = Inl err
    \<longrightarrow> fst (getPodByLabelHandler cs enc request calls)
          = (Some (ToolResultError (''Error getting pods list: '' @ Error err)), None)
        \<and> sublist (Error err) (''Error getting pods list: '' @ Error err))"
proof (intro conjI impI)
  assume h: "assert_map (Arguments (Params request)) = Some args
      \<and> PodsGet cs (if assert_string (args ''namespace'') = [] then ''default''
                     else assert_string (args ''namespace''))
                    (assert_string (args ''podName'')) = Inl err"
  show "fst (getPodDatailsHandler cs enc request calls)
          = (Some (ToolResultError (''Pod not found: '' @ Error err)), None)"
    using h get_failure by blast
  show "sublist (Error err) (''Pod not found: '' @ Error err)"
    by (rule sublist_append_leftI)
next
  assume h: "assert_map (Arguments (Params request)) = Some args
      \<and> assert_string (args ''labelSelector'') \<noteq> []
      \<and> PodsList cs [] (assert_string (args ''labelSelector'')) = Inl err"
  show "fst (getPodByLabelHandler cs enc request calls)
          = (Some (ToolResultError (''Error getting pods list: '' @ Error err)), None)"
    using h list_failure by blast
  show "sublist (Error err) (''Error getting pods list: '' @ Error err)"
    by (rule sublist_append_leftI)
qed

theorem cluster_failure_is_an_error_result_witness:
  "fst (getPodDatailsHandler unreachable_cluster example_encoder
          (tool_call ''get_pod_details'' (AMap [''podName'' \<mapsto> AString ''nginx-a''])) [])
     = (Some (ToolResultError ''Pod not found: connection refused''), None)
   \<and> sublist ''connection refused'' ''Pod not found: connection refused''
   \<and> fst (getPodByLabelHandler unreachable_cluster example_encoder
          (tool_call ''get_pods_by_label'' (AMap [''labelSelector'' \<mapsto> AString ''app=nginx''])) [])
     = (Some (ToolResultError ''Error getting pods list: pods is forbidden''), None)
   \<and> sublist ''pods is forbidden'' ''Error getting pods list: pods is forbidden''"
proof -
  let ?a1 = "[''podName'' \<mapsto> AString ''nginx-a'']"
  let ?r1 = "tool_call ''get_pod_details'' (AMap ?a1)"
  let ?a2 = "[''labelSelector'' \<mapsto> AString ''app=nginx'']"
  let ?r2 = "tool_call ''get_pods_by_label'' (AMap ?a2)"
  have g: "assert_map (Arguments (Params ?r1)) = Some ?a1
      \<and> PodsGet unreachable_cluster
           (if assert_string (?a1 ''namespace'') = [] then ''default''
            else assert_string (?a1 ''namespace''))
           (assert_string (?a1 ''podName'')) = Inl (NetworkError ''connection refused'')"
    by (simp add: tool_call_def unreachable_cluster_def)
  have l: "assert_map (Arguments (Params ?r2)) = Some ?a2
      \<and> assert_string (?a2 ''labelSelector'') \<noteq> []
      \<and> PodsList unreachable_cluster [] (assert_string (?a2 ''labelSelector''))
           = Inl (Forbidden ''pods is forbidden'')"
    by (simp add: tool_call_def unreachable_cluster_def)
  from cluster_failure_is_an_error_result
         [of ?r1 ?a1 unreachable_cluster "NetworkError ''connection refused''" example_encoder "[]"]
       g
  have c1: "fst (getPodDatailsHandler unreachable_cluster example_encoder ?r1 [])
          = (Some (ToolResultError (''Pod not found: '' @ Error (NetworkError ''connection refused''))), None)
        \<and> sublist (Error (NetworkError ''connection refused''))
             (''Pod not found: '' @ Error (NetworkError ''connection refused''))"
    by blast
  from cluster_failure_is_an_error_result
         [of ?r2 ?a2 unreachable_cluster "Forbidden ''pods is forbidden''" example_encoder "[]"]
       l
  have c2: "fst (getPodByLabelHandler unreachable_cluster example_encoder ?r2 [])
          = (Some (ToolResultError (''Error getting pods list: '' @ Error (Forbidden ''pods is forbidden''))), None)
        \<and> sublist (Error (Forbidden ''pods is forbidden''))
             (''Error getting pods list: '' @ Error (Forbidden ''pods is forbidden''))"
    by blast
  from c1 c2 show ?thesis by simp
qed

text \<open>
  When \<^verbatim>\<open>labelSelector\<close> is the empty string, is missing or is not a string,
  \<^verbatim>\<open>getPodByLabelHandler\<close> returns the error result "labelSelector is required" and
  the calls on the clientset are the ones made before.
\<close>

theorem empty_labelSelector_rejected:
  assumes "assert_map (Arguments (Params request)) = Some args"
    and "assert_string (args ''labelSelector'') = []"
  shows "getPodByLabelHandler cs enc request calls
           = ((Some (ToolResultError ''labelSelector is required''), None), calls)"
  using assms by (simp add: getPodByLabelHandler_def Let_def NewToolResultError_def)

theorem empty_labelSelector_rejected_witness:
  "getPodByLabelHandler example_cluster example_encoder
     (tool_call ''get_pods_by_label'' (AMap [''labelSelector'' \<mapsto> AString []])) []
     = ((Some (ToolResultError ''labelSelector is required''), None), [])
   \<and> getPodByLabelHandler example_cluster example_encoder
     (tool_call ''get_pods_by_label'' (AMap Map.empty)) []
     = ((Some (ToolResultError ''labelSelector is required''), None), [])"
proof -
  let ?a1 = "[''labelSelector'' \<mapsto> AString []]"
  have a: "assert_map (Arguments (Params (tool_call ''get_pods_by_label'' (AMap ?a1)))) = Some ?a1"
    by (simp add: tool_call_def)
  have b: "assert_string (?a1 ''labelSelector'') = []" by simp
  have c: "assert_map (Arguments (Params (tool_call ''get_pods_by_label'' (AMap Map.empty))))
             = Some Map.empty"
    by (simp add: tool_call_def)
  have d: "assert_string ((Map.empty :: string \<rightharpoonup> any) ''labelSelector'') = []" by simp
  from empty_labelSelector_rejected [OF a b] empty_labelSelector_rejected [OF c d]
  show ?thesis by blast
qed

subsection \<open>Both variants\<close>

text \<open>
  C10. When the arguments are not a string-keyed map, each handler, in both variants of
  the file, returns the error result "Invalid arguments format" with a nil Go error,
  and the calls on the clientset are the ones made before.
\<close>

theorem invalid_arguments_format:
  assumes "assert_map (Arguments (Params request)) = None"
  shows "getPodDatailsHandler cs enc request calls
           = ((Some (ToolResultError ''Invalid arguments format''), None), calls)
       \<and> getPodByLabelHandler cs enc request calls
           = ((Some (ToolResultError ''Invalid arguments format''), None), calls)
       \<and> getPodDatailsHandler_early cs enc request calls
           = ((Some (ToolResultError ''Invalid arguments format''), None), calls)
       \<and> getByLabelHandler cs enc request calls
           = ((Some (ToolResultError ''Invalid arguments format''), None), calls)"
  using assms
  by (simp add: getPodDatailsHandler_def getPodByLabelHandler_def
      getPodDatailsHandler_early_def getByLabelHandler_def NewToolResultError_def)

theorem invalid_arguments_format_witness:
  "getPodDatailsHandler example_cluster example_encoder
     (tool_call ''get_pod_details'' (AString ''nginx-a'')) []
     = ((Some (ToolResultError ''Invalid arguments format''), None), [])
   \<and> getPodByLabelHandler example_cluster example_encoder
     (tool_call ''get_pod_details'' (AString ''nginx-a'')) []
     = ((Some (ToolResultError ''Invalid arguments format''), None), [])
   \<and> getPodDatailsHandler_early example_cluster example_encoder
     (tool_call ''get_pod_details'' (AString ''nginx-a'')) []
     = ((Some (ToolResultError ''Invalid arguments format''), None), [])
   \<and> getByLabelHandler example_cluster example_encoder
     (tool_call ''get_pod_details'' (AString ''nginx-a'')) []
     = ((Some (ToolResultError ''Invalid arguments format''), None), [])"
proof -
  have a: "assert_map (Arguments (Params (tool_call ''get_pod_details'' (AString ''nginx-a'')))) = None"
    by (simp add: tool_call_def)
  from invalid_arguments_format [OF a] show ?thesis .
qed

text \<open>
  Neither variant of \<^verbatim>\<open>getPodDatailsHandler\<close> looks at the pod name before the call:
  once the arguments are a map, the get call is made, whatever the name.
\<close>

lemma getPodDatailsHandler_calls_Get:
  assumes "assert_map (Arguments (Params request)) = Some args"
  shows "snd (getPodDatailsHandler cs enc request calls)
           = calls @ [GetCall (if assert_string (args ''namespace'') = [] then ''default''
                               else assert_string (args ''namespace''))
                              (assert_string (args ''podName''))]"
    and "snd (getPodDatailsHandler_early cs enc request calls)
           = calls @ [GetCall (if assert_string (args ''namespace'') = [] then ''default''
                               else assert_string (args ''namespace''))
                              (assert_string (args ''podName''))]"
  using assms
  by (simp_all add: getPodDatailsHandler_def getPodDatailsHandler_early_def Let_def
      NewToolResultJSON_def split: sum.splits prod.splits option.splits)

text \<open>
  C1. With an empty or missing \<^verbatim>\<open>podName\<close>, \<^verbatim>\<open>getPodDatailsHandler\<close> (in both variants)
  does call the clientset: it asks for the pod named by the empty string in the
  namespace "default", and the error result it returns is the client's.
\<close>

theorem empty_podName_reaches_cluster:
  "getPodDatailsHandler example_cluster example_encoder
     (tool_call ''get_pod_details'' (AMap [''podName'' \<mapsto> AString []])) []
     = ((Some (ToolResultError ''Pod not found: resource name may not be empty''), None),
        [GetCall ''default'' []])
   \<and> getPodDatailsHandler example_cluster example_encoder
     (tool_call ''get_pod_details'' (AMap Map.empty)) []
     = ((Some (ToolResultError ''Pod not found: resource name may not be empty''), None),
        [GetCall ''default'' []])
   \<and> getPodDatailsHandler_early example_cluster example_encoder
     (tool_call ''get_pod_details'' (AMap [''podName'' \<mapsto> AString []])) []
     = ((Some (ToolResultError ''Pod not found: resource name may not be empty''), None),
        [GetCall ''default'' []])"
  by (simp add: getPodDatailsHandler_def getPodDatailsHandler_early_def tool_call_def
      example_cluster_def NewToolResultError_def Let_def)

subsection \<open>A successful get\<close>

text \<open>
  A successful get: the handler asks for the pod in the namespace given, "default" when
  none is, and the success result carries the sanitized pod.
\<close>

theorem get_pod_details_success:
  assumes "assert_map (Arguments (Params request)) = Some args"
    and "namespace = (if assert_string (args ''namespace'') = [] then ''default''
                      else assert_string (args ''namespace''))"
    and "PodsGet cs namespace (assert_string (args ''podName'')) = Inr pod"
    and "Marshal enc (PodDocument (deleteUnnecessaryFieldsFromPodSpec pod)) = Inr text"
  shows "getPodDatailsHandler cs enc request calls
           = ((Some (ToolResultJSON (PodDocument (deleteUnnecessaryFieldsFromPodSpec pod)) text),
               None),
              calls @ [GetCall namespace (assert_string (args ''podName''))])"
  using assms by (simp add: getPodDatailsHandler_def Let_def NewToolResultJSON_def)

theorem get_pod_details_success_witness:
  "getPodDatailsHandler example_cluster example_encoder
     (tool_call ''get_pod_details'' (AMap [''podName'' \<mapsto> AString ''nginx-a''])) []
     = ((Some (ToolResultJSON (PodDocument (deleteUnnecessaryFieldsFromPodSpec nginx_a))
                 ''nginx-a''), None),
        [GetCall ''default'' ''nginx-a''])"
proof -
  let ?args = "[''podName'' \<mapsto> AString ''nginx-a'']"
  let ?req = "tool_call ''get_pod_details'' (AMap ?args)"
  have a: "assert_map (Arguments (Params ?req)) = Some ?args"
    by (simp add: tool_call_def)
  have b: "''default'' = (if assert_string (?args ''namespace'') = [] then ''default''
                      else assert_string (?args ''namespace''))"
    by simp
  have n: "assert_string (?args ''podName'') = ''nginx-a''"
    by simp
  have c: "PodsGet example_cluster ''default'' (assert_string (?args ''podName'')) = Inr nginx_a"
    unfolding n by (simp add: example_cluster_def)
  have d: "Marshal example_encoder (PodDocument (deleteUnnecessaryFieldsFromPodSpec nginx_a))
             = Inr ''nginx-a''"
    by (simp add: example_encoder_def)
  from get_pod_details_success [OF a b c d, of "[]"] n show ?thesis
    by simp
qed

subsection \<open>The earlier variant\<close>

text \<open>
  The earlier variant's list handler has no test on the selector: for every
  string-keyed argument map it calls List with the selector as read, the empty string
  included. When the call fails its message is the fixed text. When it succeeds, the
  items go to the encoder as the client returned them, and the result wraps the bytes
  of the indented text.
\<close>

theorem getByLabelHandler_forwards_selector_and_items:
  assumes "assert_map (Arguments (Params request)) = Some args"
  shows "snd (getByLabelHandler cs enc request calls)
           = calls @ [ListCall [] (assert_string (args ''labelSelector''))]
       \<and> (PodsList cs [] (assert_string (args ''labelSelector'')) = Inl err
            \<longrightarrow> fst (getByLabelHandler cs enc request calls)
                  = (Some (ToolResultError ''Error getting pods list''), None))
       \<and> (PodsList cs [] (assert_string (args ''labelSelector'')) = Inr items
            \<and> MarshalIndent enc (PodItems items) = Inr jsonData
            \<and> Marshal enc (Bytes jsonData) = Inr text
            \<longrightarrow> fst (getByLabelHandler cs enc request calls)
                  = (Some (ToolResultJSON (Bytes jsonData) text), None))"
  using assms
  by (auto simp: getByLabelHandler_def Let_def NewToolResultJSON_def NewToolResultError_def
      range_clear_managedFields_keeps split: sum.splits)

theorem getByLabelHandler_forwards_selector_and_items_witness:
  "snd (getByLabelHandler example_cluster example_encoder
          (tool_call ''get_pods_by_label'' (AMap [''labelSelector'' \<mapsto> AString []])) [])
     = [ListCall [] []]
   \<and> fst (getByLabelHandler example_cluster example_encoder
          (tool_call ''get_pods_by_label'' (AMap [''labelSelector'' \<mapsto> AString []])) [])
     = (Some (ToolResultJSON (Bytes ''nginx-a+managedFields+last-applied+psp;nginx-b;nginx-c;'')
                ''nginx-a+managedFields+last-applied+psp;nginx-b;nginx-c;''),
        None)
   \<and> snd (getByLabelHandler unreachable_cluster example_encoder
          (tool_call ''get_pods_by_label'' (AMap [''labelSelector'' \<mapsto> AString ''app=nginx''])) [])
     = [ListCall [] ''app=nginx'']
   \<and> fst (getByLabelHandler unreachable_cluster example_encoder
          (tool_call ''get_pods_by_label'' (AMap [''labelSelector'' \<mapsto> AString ''app=nginx''])) [])
     = (Some (ToolResultError ''Error getting pods list''), None)"
proof -
  let ?a1 = "[''labelSelector'' \<mapsto> AString []]"
  let ?r1 = "tool_call ''get_pods_by_label'' (AMap ?a1)"
  let ?a2 = "[''labelSelector'' \<mapsto> AString ''app=nginx'']"
  let ?r2 = "tool_call ''get_pods_by_label'' (AMap ?a2)"
  have m1: "assert_map (Arguments (Params ?r1)) = Some ?a1"
    by (simp add: tool_call_def)
  have m2: "assert_map (Arguments (Params ?r2)) = Some ?a2"
    by (simp add: tool_call_def)
  have s1: "assert_string (?a1 ''labelSelector'') = []"
    by simp
  have s2: "assert_string (?a2 ''labelSelector'') = ''app=nginx''"
    by simp
  have ok: "PodsList example_cluster [] (assert_string (?a1 ''labelSelector''))
              = Inr [nginx_a, nginx_b, nginx_c]
          \<and> MarshalIndent example_encoder (PodItems [nginx_a, nginx_b, nginx_c])
              = Inr ''nginx-a+managedFields+last-applied+psp;nginx-b;nginx-c;''
          \<and> Marshal example_encoder
                (Bytes ''nginx-a+managedFields+last-applied+psp;nginx-b;nginx-c;'')
              = Inr ''nginx-a+managedFields+last-applied+psp;nginx-b;nginx-c;''"
    unfolding s1 by (simp add: example_cluster_def example_encoder_def)
  have ko: "PodsList unreachable_cluster [] (assert_string (?a2 ''labelSelector''))
              = Inl (Forbidden ''pods is forbidden'')"
    by (simp add: unreachable_cluster_def)
  from getByLabelHandler_forwards_selector_and_items
         [OF m1, of example_cluster example_encoder "[]" "Forbidden ''x''"
            "[nginx_a, nginx_b, nginx_c]"
            "''nginx-a+managedFields+last-applied+psp;nginx-b;nginx-c;''"
            "''nginx-a+managedFields+last-applied+psp;nginx-b;nginx-c;''"] ok s1
  have p1: "snd (getByLabelHandler example_cluster example_encoder ?r1 []) = [ListCall [] []]
     \<and> fst (getByLabelHandler example_cluster example_encoder ?r1 [])
       = (Some (ToolResultJSON (Bytes ''nginx-a+managedFields+last-applied+psp;nginx-b;nginx-c;'')
                ''nginx-a+managedFields+last-applied+psp;nginx-b;nginx-c;''),
          None)"
    by simp
  from getByLabelHandler_forwards_selector_and_items
         [OF m2, of unreachable_cluster example_encoder "[]" "Forbidden ''pods is forbidden''"
            "[]" "[]" "[]"] ko s2
  have p2: "snd (getByLabelHandler unreachable_cluster example_encoder ?r2 [])
       = [ListCall [] ''app=nginx'']
     \<and> fst (getByLabelHandler unreachable_cluster example_encoder ?r2 [])
       = (Some (ToolResultError ''Error getting pods list''), None)"
    by simp
  from p1 p2 show ?thesis by simp
qed

text \<open>
  C4. A successful list call of the earlier variant, on the selector \<^verbatim>\<open>app=nginx\<close> and
  three matching pods: the first pod reaches the encoder with its managed-fields
  entries and both named annotations, so the result's JSON text shows them. The later
  variant's handler returns the three sanitized pods
  (\<open>list_success_sanitized_in_order\<close>).
\<close>

theorem getByLabelHandler_items_not_sanitized:
  "fst (getByLabelHandler example_cluster example_encoder
          (tool_call ''get_pods_by_label'' (AMap [''labelSelector'' \<mapsto> AString ''app=nginx''])) [])
     = (Some (ToolResultJSON
                (Bytes ''nginx-a+managedFields+last-applied+psp;nginx-b;nginx-c;'')
                ''nginx-a+managedFields+last-applied+psp;nginx-b;nginx-c;''), None)
   \<and> range_clear_managedFields [nginx_a, nginx_b, nginx_c] [nginx_a, nginx_b, nginx_c]
       = [nginx_a, nginx_b, nginx_c]
   \<and> ManagedFields (ObjectMeta nginx_a) \<noteq> None
   \<and> fst (getPodByLabelHandler example_cluster example_encoder
          (tool_call ''get_pods_by_label'' (AMap [''labelSelector'' \<mapsto> AString ''app=nginx''])) [])
     = (Some (ToolResultJSON
                (PodItems (map deleteUnnecessaryFieldsFromPodSpec [nginx_a, nginx_b, nginx_c]))
                ''nginx-a;nginx-b;nginx-c;''), None)"
proof -
  let ?req = "tool_call ''get_pods_by_label'' (AMap [''labelSelector'' \<mapsto> AString ''app=nginx''])"
  have early: "fst (getByLabelHandler example_cluster example_encoder ?req [])
     = (Some (ToolResultJSON
                (Bytes ''nginx-a+managedFields+last-applied+psp;nginx-b;nginx-c;'')
                ''nginx-a+managedFields+last-applied+psp;nginx-b;nginx-c;''), None)"
    by (simp add: getByLabelHandler_def tool_call_def example_cluster_def example_encoder_def
        NewToolResultJSON_def Let_def range_clear_managedFields_keeps)
  have loop: "range_clear_managedFields [nginx_a, nginx_b, nginx_c] [nginx_a, nginx_b, nginx_c]
       = [nginx_a, nginx_b, nginx_c]"
    by (rule range_clear_managedFields_keeps)
  have mf: "ManagedFields (ObjectMeta nginx_a) \<noteq> None"
    by (simp add: nginx_a_def mk_pod_def)
  have later: "fst (getPodByLabelHandler example_cluster example_encoder ?req [])
     = (Some (ToolResultJSON
                (PodItems (map deleteUnnecessaryFieldsFromPodSpec [nginx_a, nginx_b, nginx_c]))
                ''nginx-a;nginx-b;nginx-c;''), None)"
    by (simp add: getPodByLabelHandler_def tool_call_def example_cluster_def example_encoder_def
        NewToolResultJSON_def Let_def sanitize_items_all)
  from early loop mf later show ?thesis
    by blast
qed

text \<open>
  C5. A list call of the earlier variant that the cluster refuses: the error result is
  the fixed text "Error getting pods list", and the cluster's message is no part of
  it. The later variant's handler appends the message
  (\<open>cluster_failure_is_an_error_result\<close>).
\<close>

theorem getByLabelHandler_drops_error_message:
  "fst (getByLabelHandler unreachable_cluster example_encoder
          (tool_call ''get_pods_by_label'' (AMap [''labelSelector'' \<mapsto> AString ''app=nginx''])) [])
     = (Some (ToolResultError ''Error getting pods list''), None)
   \<and> PodsList unreachable_cluster [] ''app=nginx'' = Inl (Forbidden ''pods is forbidden'')
   \<and> \<not> sublist (Error (Forbidden ''pods is forbidden'')) ''Error getting pods list''"
proof -
  have res: "fst (getByLabelHandler unreachable_cluster example_encoder
          (tool_call ''get_pods_by_label'' (AMap [''labelSelector'' \<mapsto> AString ''app=nginx''])) [])
     = (Some (ToolResultError ''Error getting pods list''), None)"
    by (simp add: getByLabelHandler_def tool_call_def unreachable_cluster_def
        NewToolResultError_def Let_def)
  have err: "PodsList unreachable_cluster [] ''app=nginx'' = Inl (Forbidden ''pods is forbidden'')"
    by (simp add: unreachable_cluster_def)
  have "\<not> set ''pods is forbidden'' \<subseteq> set ''Error getting pods list''"
    by simp
  then have "\<not> sublist ''pods is forbidden'' ''Error getting pods list''"
    using set_mono_sublist by blast
  then have no: "\<not> sublist (Error (Forbidden ''pods is forbidden'')) ''Error getting pods list''"
    by simp
  from res err no show ?thesis
    by blast
qed

text \<open>
  C6. The earlier variant called with the empty selector: the handler calls List with
  it, on every namespace, and returns the pods of the whole cluster as a success
  result. The later variant's handler returns "labelSelector is required" and makes no
  call (\<open>empty_labelSelector_rejected\<close>).
\<close>

theorem getByLabelHandler_lists_on_empty_selector:
  "getByLabelHandler example_cluster example_encoder
     (tool_call ''get_pods_by_label'' (AMap [''labelSelector'' \<mapsto> AString []])) []
     = ((Some (ToolResultJSON
                 (Bytes ''nginx-a+managedFields+last-applied+psp;nginx-b;nginx-c;'')
                 ''nginx-a+managedFields+last-applied+psp;nginx-b;nginx-c;''), None),
        [ListCall [] []])
   \<and> getByLabelHandler example_cluster example_encoder
     (tool_call ''get_pods_by_label'' (AMap Map.empty)) []
     = ((Some (ToolResultJSON
                 (Bytes ''nginx-a+managedFields+last-applied+psp;nginx-b;nginx-c;'')
                 ''nginx-a+managedFields+last-applied+psp;nginx-b;nginx-c;''), None),
        [ListCall [] []])"
  by (simp add: getByLabelHandler_def tool_call_def example_cluster_def example_encoder_def
      NewToolResultJSON_def Let_def range_clear_managedFields_keeps)

section \<open>Properties of the metrics\<close>

lemma run_gauge: "activeConnections (run xs m) = activeConnections m + gauge_delta xs"
proof (induction xs arbitrary: m)
  case Nil
  then show ?case by simp
next
  case (Cons x xs)
  then show ?case by (cases x) simp_all
qed

lemma run_counter:
  "requestsTotal (run xs m) endpoint = requestsTotal m endpoint + counter_delta endpoint xs"
proof (induction xs arbitrary: m)
  case Nil
  then show ?case by simp
next
  case (Cons x xs)
  then show ?case by (cases x) simp_all
qed

lemma sum_list_update_int:
  fixes f :: "'a \<Rightarrow> int"
  shows "i < length ts \<Longrightarrow>
    sum_list (map f (ts[i := r])) = sum_list (map f ts) - f (ts ! i) + f r"
proof (induction ts arbitrary: i)
  case Nil
  then show ?case by simp
next
  case (Cons t ts)
  then show ?case by (cases i) simp_all
qed

lemma sum_list_update_nat:
  fixes f :: "'a \<Rightarrow> nat"
  shows "i < length ts \<Longrightarrow>
    sum_list (map f (ts[i := r])) + f (ts ! i) = sum_list (map f ts) + f r"
proof (induction ts arbitrary: i)
  case Nil
  then show ?case by simp
next
  case (Cons t ts)
  then show ?case by (cases i) simp_all
qed

lemma all_done_int:
  fixes f :: "'b list \<Rightarrow> int"
  assumes "f [] = 0"
  shows "list_all (\<lambda>t. t = []) ts \<Longrightarrow> sum_list (map f ts) = 0"
  using assms by (induction ts) simp_all

lemma all_done_nat:
  fixes f :: "'b list \<Rightarrow> nat"
  assumes "f [] = 0"
  shows "list_all (\<lambda>t. t = []) ts \<Longrightarrow> sum_list (map f ts) = 0"
  using assms by (induction ts) simp_all

lemma interleaving_gauge:
  "interleaving ts zs \<Longrightarrow> gauge_delta zs = sum_list (map gauge_delta ts)"
proof (induction rule: interleaving.induct)
  case (finished ts)
  then show ?case by (simp add: all_done_int)
next
  case (step i ts x rest zs)
  have "sum_list (map gauge_delta (ts[i := rest]))
      = sum_list (map gauge_delta ts) - gauge_delta (x # rest) + gauge_delta rest"
    using sum_list_update_int [OF step.hyps(1), of gauge_delta rest] step.hyps(2) by simp
  with step.IH show ?case by (cases x) simp_all
qed

lemma interleaving_counter:
  "interleaving ts zs \<Longrightarrow> counter_delta e zs = sum_list (map (counter_delta e) ts)"
proof (induction rule: interleaving.induct)
  case (finished ts)
  then show ?case by (simp add: all_done_nat)
next
  case (step i ts x rest zs)
  have "sum_list (map (counter_delta e) (ts[i := rest])) + counter_delta e (x # rest)
      = sum_list (map (counter_delta e) ts) + counter_delta e rest"
    using sum_list_update_nat [OF step.hyps(1), of "counter_delta e" rest] step.hyps(2) by simp
  with step.IH show ?case by (cases x) (simp_all split: if_splits)
qed

lemma mux_gauge_delta: "gauge_delta (mux path oc) = 0"
  by (simp add: mux_def sse_endpoint_def message_endpoint_def root_endpoint_def)

lemma mux_counter_delta:
  "counter_delta ''sse'' (mux path oc) = (if path = ''/sse'' then 1 else 0)"
  "counter_delta ''message'' (mux path oc) = (if path = ''/message'' then 1 else 0)"
  "counter_delta ''root'' (mux path oc) = (if path = ''/'' then 1 else 0)"
  by (simp_all add: mux_def sse_endpoint_def message_endpoint_def root_endpoint_def)

lemma calls_gauge: "sum_list (map gauge_delta (map (\<lambda>c. mux (fst c) (snd c)) cs)) = 0"
  by (induction cs) (simp_all add: mux_gauge_delta)

lemma calls_counter:
  "sum_list (map (counter_delta ''sse'') (map (\<lambda>c. mux (fst c) (snd c)) cs)) = calls_on ''/sse'' cs"
  "sum_list (map (counter_delta ''message'') (map (\<lambda>c. mux (fst c) (snd c)) cs)) = calls_on ''/message'' cs"
  "sum_list (map (counter_delta ''root'') (map (\<lambda>c. mux (fst c) (snd c)) cs)) = calls_on ''/'' cs"
  by (induction cs) (simp_all add: mux_counter_delta calls_on_def)

lemma schedule_interleaving: "schedule is ts = Some zs \<Longrightarrow> interleaving ts zs"
proof (induction "is" arbitrary: ts zs)
  case Nil
  then show ?case by (auto split: if_splits intro: interleaving.finished)
next
  case (Cons i "is")
  from Cons.prems obtain x rest zs' where
    i: "i < length ts" and t: "ts ! i = x # rest"
    and s: "schedule is (ts[i := rest]) = Some zs'" and z: "zs = x # zs'"
    by (auto split: if_splits list.splits)
  from Cons.IH [OF s] have "interleaving (ts[i := rest]) zs'" .
  with i t z show ?case by (auto intro: interleaving.step)
qed

lemma example_schedule:
  "schedule [0, 2, 1, 2, 0, 1, 3, 2, 2, 3, 0, 0] (map (\<lambda>c. mux (fst c) (snd c)) example_calls)
     = Some example_trace"
  by (simp add: example_calls_def example_trace_def mux_def sse_endpoint_def
      message_endpoint_def root_endpoint_def)

text \<open>
  C9 (as amended). A call on \<^verbatim>\<open>/sse\<close> or on the root path \<^verbatim>\<open>/\<close> raises the gauge by one
  before the inner handler runs and has it back when the call is over, whether the
  inner handler returned or panicked; a call on \<^verbatim>\<open>/message\<close> never moves the gauge.
  A call on one of the three endpoints raises that endpoint's counter by one, before
  the inner handler runs. After any interleaving of completed calls the gauge is where
  it was before them and each endpoint's counter has grown by the number of calls on
  it; started on the fresh registry, the gauge is 0 and each counter is that number.
\<close>

theorem shim_metrics:
  "(path = ''/sse'' \<or> path = ''/'' \<longrightarrow>
      activeConnections (run (on_entry (mux path oc)) m) = activeConnections m + 1
    \<and> activeConnections (run (mux path oc) m) = activeConnections m)
 \<and> activeConnections (run (on_entry (mux ''/message'' oc)) m) = activeConnections m
 \<and> activeConnections (run (mux ''/message'' oc) m) = activeConnections m
 \<and> requestsTotal (run (on_entry (mux ''/sse'' oc)) m) ''sse'' = Suc (requestsTotal m ''sse'')
 \<and> requestsTotal (run (mux ''/sse'' oc) m) ''sse'' = Suc (requestsTotal m ''sse'')
 \<and> requestsTotal (run (on_entry (mux ''/message'' oc)) m) ''message''
      = Suc (requestsTotal m ''message'')
 \<and> requestsTotal (run (mux ''/message'' oc) m) ''message'' = Suc (requestsTotal m ''message'')
 \<and> requestsTotal (run (on_entry (mux ''/'' oc)) m) ''root'' = Suc (requestsTotal m ''root'')
 \<and> requestsTotal (run (mux ''/'' oc) m) ''root'' = Suc (requestsTotal m ''root'')
 \<and> (interleaving (map (\<lambda>c. mux (fst c) (snd c)) calls) zs \<longrightarrow>
      activeConnections (run zs m) = activeConnections m
    \<and> requestsTotal (run zs m) ''sse'' = requestsTotal m ''sse'' + calls_on ''/sse'' calls
    \<and> requestsTotal (run zs m) ''message''
        = requestsTotal m ''message'' + calls_on ''/message'' calls
    \<and> requestsTotal (run zs m) ''root'' = requestsTotal m ''root'' + calls_on ''/'' calls
    \<and> activeConnections (run zs registry) = 0
    \<and> requestsTotal (run zs registry) ''sse'' = calls_on ''/sse'' calls
    \<and> requestsTotal (run zs registry) ''message'' = calls_on ''/message'' calls
    \<and> requestsTotal (run zs registry) ''root'' = calls_on ''/'' calls)"
proof -
  have entry: "path = ''/sse'' \<or> path = ''/'' \<longrightarrow>
      activeConnections (run (on_entry (mux path oc)) m) = activeConnections m + 1
    \<and> activeConnections (run (mux path oc) m) = activeConnections m"
    by (auto simp: mux_def sse_endpoint_def root_endpoint_def)
  have message:
    "activeConnections (run (on_entry (mux ''/message'' oc)) m) = activeConnections m"
    "activeConnections (run (mux ''/message'' oc) m) = activeConnections m"
    by (simp_all add: mux_def message_endpoint_def)
  have counters:
    "requestsTotal (run (on_entry (mux ''/sse'' oc)) m) ''sse'' = Suc (requestsTotal m ''sse'')"
    "requestsTotal (run (mux ''/sse'' oc) m) ''sse'' = Suc (requestsTotal m ''sse'')"
    "requestsTotal (run (on_entry (mux ''/message'' oc)) m) ''message''
      = Suc (requestsTotal m ''message'')"
    "requestsTotal (run (mux ''/message'' oc) m) ''message'' = Suc (requestsTotal m ''message'')"
    "requestsTotal (run (on_entry (mux ''/'' oc)) m) ''root'' = Suc (requestsTotal m ''root'')"
    "requestsTotal (run (mux ''/'' oc) m) ''root'' = Suc (requestsTotal m ''root'')"
    by (simp_all add: mux_def sse_endpoint_def message_endpoint_def root_endpoint_def)
  have final: "interleaving (map (\<lambda>c. mux (fst c) (snd c)) calls) zs \<longrightarrow>
      activeConnections (run zs m) = activeConnections m
    \<and> requestsTotal (run zs m) ''sse'' = requestsTotal m ''sse'' + calls_on ''/sse'' calls
    \<and> requestsTotal (run zs m) ''message''
        = requestsTotal m ''message'' + calls_on ''/message'' calls
    \<and> requestsTotal (run zs m) ''root'' = requestsTotal m ''root'' + calls_on ''/'' calls
    \<and> activeConnections (run zs registry) = 0
    \<and> requestsTotal (run zs registry) ''sse'' = calls_on ''/sse'' calls
    \<and> requestsTotal (run zs registry) ''message'' = calls_on ''/message'' calls
    \<and> requestsTotal (run zs registry) ''root'' = calls_on ''/'' calls"
  proof
    assume i: "interleaving (map (\<lambda>c. mux (fst c) (snd c)) calls) zs"
    have g: "activeConnections (run zs n) = activeConnections n" for n
      using interleaving_gauge [OF i] calls_gauge [of calls]
      by (simp add: run_gauge)
    have c: "requestsTotal (run zs n) ''sse'' = requestsTotal n ''sse'' + calls_on ''/sse'' calls"
      "requestsTotal (run zs n) ''message''
         = requestsTotal n ''message'' + calls_on ''/message'' calls"
      "requestsTotal (run zs n) ''root'' = requestsTotal n ''root'' + calls_on ''/'' calls" for n
      using interleaving_counter [OF i] calls_counter [of calls]
      by (simp_all add: run_counter)
    have z: "activeConnections registry = 0" "requestsTotal registry e = 0" for e
      by (simp_all add: registry_def)
    from g [of m] c [of m] g [of registry] c [of registry] z
    show "activeConnections (run zs m) = activeConnections m
    \<and> requestsTotal (run zs m) ''sse'' = requestsTotal m ''sse'' + calls_on ''/sse'' calls
    \<and> requestsTotal (run zs m) ''message''
        = requestsTotal m ''message'' + calls_on ''/message'' calls
    \<and> requestsTotal (run zs m) ''root'' = requestsTotal m ''root'' + calls_on ''/'' calls
    \<and> activeConnections (run zs registry) = 0
    \<and> requestsTotal (run zs registry) ''sse'' = calls_on ''/sse'' calls
    \<and> requestsTotal (run zs registry) ''message'' = calls_on ''/message'' calls
    \<and> requestsTotal (run zs registry) ''root'' = calls_on ''/'' calls"
      by simp
  qed
  from entry message counters final show ?thesis
    by blast
qed

theorem shim_metrics_witness:
  "activeConnections (run (on_entry (mux ''/sse'' Returned)) registry) = 1
 \<and> activeConnections (run (mux ''/sse'' Returned) registry) = 0
 \<and> activeConnections (run example_trace registry) = 0
 \<and> requestsTotal (run example_trace registry) ''sse'' = 1
 \<and> requestsTotal (run example_trace registry) ''message'' = 2
 \<and> requestsTotal (run example_trace registry) ''root'' = 1"
proof -
  have i: "interleaving (map (\<lambda>c. mux (fst c) (snd c)) example_calls) example_trace"
    using example_schedule by (rule schedule_interleaving)
  have n: "calls_on ''/sse'' example_calls = 1" "calls_on ''/message'' example_calls = 2"
    "calls_on ''/'' example_calls = 1"
    by (simp_all add: calls_on_def example_calls_def)
  have r: "activeConnections registry = 0"
    by (simp add: registry_def)
  from shim_metrics [of "''/sse''" Returned registry example_calls example_trace] i n r
  show ?thesis by simp
qed

text \<open>
  C9 as stated asks for the gauge to rise on entry of a call on each of the three
  endpoints. While a call on \<^verbatim>\<open>/message\<close> is in its inner handler the gauge is where
  it was.
\<close>

theorem message_call_leaves_gauge:
  "\<not> (activeConnections (run (on_entry (mux ''/message'' Returned)) registry)
        = activeConnections registry + 1)"
  by (simp add: mux_def message_endpoint_def registry_def)

end
